theory Spec2Isabelle
  imports Main "HOL-Library.AList" "HOL-Library.Multiset"
begin

section \<open>Shared Python notions\<close>

text \<open>
  Exceptions of the Python sources are values: every operation that can raise returns
  \<open>py_error + 'a\<close>, with \<open>Inl\<close> the exception.
\<close>

datatype py_error =
    RuntimeError
  | IndexError
  | KeyError
  | TypeError
  | FileNotFoundError
  | IsADirectoryError
  | PermissionError
  | UnicodeDecodeError
  | OSError
  | JSONDecodeError

subsection \<open>pathlib paths (POSIX flavour)\<close>

text \<open>
  A \<open>pathlib.PurePosixPath\<close> is its root (\<open>''''\<close> for a relative path, \<open>''/''\<close>, or
  \<open>''//''\<close> when the text starts with exactly two slashes) and its name components;
  empty components and \<open>''.''\<close> are dropped when the text is parsed.
\<close>

record pure_path =
  path_root :: string
  path_names :: "string list"

fun split_slash :: "string \<Rightarrow> string list" where
  "split_slash [] = [[]]"
| "split_slash (c # cs) =
     (if c = CHR ''/'' then [] # split_slash cs
      else (case split_slash cs of
              [] \<Rightarrow> [[c]]
            | w # ws \<Rightarrow> (c # w) # ws))"

definition splitroot :: "string \<Rightarrow> string" where
  "splitroot p =
     (if take 1 p \<noteq> ''/'' then ''''
      else if take 1 (drop 1 p) \<noteq> ''/'' \<or> take 1 (drop 2 p) = ''/'' then ''/''
      else ''//'')"

definition Path :: "string \<Rightarrow> pure_path" where
  "Path s = \<lparr> path_root = splitroot s,
              path_names = filter (\<lambda>w. w \<noteq> [] \<and> w \<noteq> ''.'') (split_slash s) \<rparr>"

text \<open>The operator \<open>/\<close> of pathlib: an anchored right operand replaces the left one.\<close>

definition joinpath :: "pure_path \<Rightarrow> string \<Rightarrow> pure_path" where
  "joinpath p s =
     (let q = Path s in
      if path_root q \<noteq> '''' then q
      else \<lparr> path_root = path_root p, path_names = path_names p @ path_names q \<rparr>)"

subsection \<open>The file system as the sources see it\<close>

text \<open>
  What the operating system answers for a path, as the pathlib calls of the sources see it.
  \<open>None\<close>: \<open>stat\<close> reports that nothing is there (\<open>ENOENT\<close>, \<open>ENOTDIR\<close>, \<open>EBADF\<close>, \<open>ELOOP\<close>),
  so \<open>Path.exists()\<close> returns \<open>False\<close>. \<open>StatFails e\<close>: \<open>stat\<close> fails with another error
  (a name longer than the file system allows, a directory on the way that may not be
  searched), which \<open>Path.exists()\<close> raises again. \<open>Present r u\<close>: something is there;
  \<open>r\<close> is what reading it as text gives (the decoded text, or the exception raised by
  opening, reading or decoding), \<open>u\<close> the exception \<open>unlink\<close> raises on it, if any.
\<close>

datatype fs_entry =
    StatFails py_error
  | Present "py_error + string" "py_error option"

type_synonym filesystem = "pure_path \<Rightarrow> fs_entry option"

text \<open>The usual kinds of entries, by what reading and unlinking them does.\<close>

definition RegularFile :: "string \<Rightarrow> fs_entry" where
  "RegularFile txt = Present (Inr txt) None"

definition Directory :: fs_entry where
  "Directory = Present (Inl IsADirectoryError) (Some IsADirectoryError)"

definition UnreadableFile :: fs_entry where
  "UnreadableFile = Present (Inl PermissionError) None"

definition UndecodableFile :: fs_entry where
  "UndecodableFile = Present (Inl UnicodeDecodeError) None"

definition NameTooLong :: fs_entry where
  "NameTooLong = StatFails OSError"

text \<open>\<open>Path.exists()\<close>, \<open>Path.read_text()\<close> (also \<open>open\<close> followed by a read) and \<open>Path.unlink()\<close>.\<close>

definition exists :: "filesystem \<Rightarrow> pure_path \<Rightarrow> py_error + bool" where
  "exists fs p =
     (case fs p of
        None \<Rightarrow> Inr False
      | Some (StatFails e) \<Rightarrow> Inl e
      | Some (Present r u) \<Rightarrow> Inr True)"

definition read_text :: "filesystem \<Rightarrow> pure_path \<Rightarrow> py_error + string" where
  "read_text fs p =
     (case fs p of
        None \<Rightarrow> Inl FileNotFoundError
      | Some (StatFails e) \<Rightarrow> Inl e
      | Some (Present r u) \<Rightarrow> r)"

definition unlink :: "filesystem \<Rightarrow> pure_path \<Rightarrow> py_error + filesystem" where
  "unlink fs p =
     (case fs p of
        None \<Rightarrow> Inl FileNotFoundError
      | Some (StatFails e) \<Rightarrow> Inl e
      | Some (Present r None) \<Rightarrow> Inr (fs(p := None))
      | Some (Present r (Some e)) \<Rightarrow> Inl e)"

section \<open>doc/ext/configblock.py\<close>

text \<open>
  Module level: \<open>BIND_BUILD_ROOT = os.getenv("BIND_BUILD_ROOT")\<close>; the import raises
  \<open>RuntimeError\<close> when the variable is unset, otherwise
  \<open>miscpath = Path(BIND_BUILD_ROOT) / "doc" / "misc"\<close>.
\<close>

definition miscpath :: "string option \<Rightarrow> py_error + pure_path" where
  "miscpath BIND_BUILD_ROOT =
     (case BIND_BUILD_ROOT of
        None \<Rightarrow> Inl RuntimeError
      | Some r \<Rightarrow> Inr (joinpath (joinpath (Path r) ''doc'') ''misc''))"

datatype node = literal_block string

text \<open>
  \<open>ConfigBlockDirective.run\<close>: \<open>arguments\<close> is the directive's argument list
  (\<open>required_arguments = 1\<close>), \<open>arguments[0]\<close> raises \<open>IndexError\<close> on an empty list.
\<close>

definition run :: "pure_path \<Rightarrow> filesystem \<Rightarrow> string list \<Rightarrow> py_error + node list" where
  "run misc fs arguments =
     (case arguments of
        [] \<Rightarrow> Inl IndexError
      | a # _ \<Rightarrow>
          (let target = joinpath misc a in
           case exists fs target of
             Inl e \<Rightarrow> Inl e
           | Inr False \<Rightarrow> Inr [literal_block ''{}'']
           | Inr True \<Rightarrow>
               (case read_text fs target of
                  Inl e \<Rightarrow> Inl e
                | Inr block \<Rightarrow> Inr [literal_block block])))"

text \<open>
  A build tree whose \<open>doc/misc\<close> holds one grammar file, one sub-directory, one file that
  may not be read and one whose bytes do not decode.
\<close>

definition example_misc :: pure_path where
  "example_misc = \<lparr> path_root = ''/'', path_names = [''build'', ''doc'', ''misc''] \<rparr>"

definition example_fs :: filesystem where
  "example_fs =
     (\<lambda>p. None)
       (\<lparr> path_root = ''/'', path_names = [''build'', ''doc'', ''misc'', ''options''] \<rparr>
          := Some (RegularFile ''options { };''),
        \<lparr> path_root = ''/'', path_names = [''build'', ''doc'', ''misc'', ''sub''] \<rparr>
          := Some Directory,
        \<lparr> path_root = ''/'', path_names = [''build'', ''doc'', ''misc'', ''secret''] \<rparr>
          := Some UnreadableFile,
        \<lparr> path_root = ''/'', path_names = [''build'', ''doc'', ''misc'', ''binary''] \<rparr>
          := Some UndecodableFile)"

section \<open>doc/man/conf.py\<close>

text \<open>A man page entry: (source start file, name, description, authors, manual section).\<close>

type_synonym page = "string \<times> string \<times> string \<times> string \<times> nat"

definition author :: string where
  "author = ''Internet Systems Consortium''"

definition man_pages :: "page list" where
  "man_pages = [
      (''arpaname'', ''arpaname'', ''translate IP addresses to the corresponding ARPA names'', author, 1),
      (''ddns-confgen'', ''ddns-confgen'', ''ddns key generation tool'', author, 8),
      (''delv'', ''delv'', ''DNS lookup and validation utility'', author, 1),
      (''dig'', ''dig'', ''DNS lookup utility'', author, 1),
      (''dnssec-cds'', ''dnssec-cds'', ''change DS records for a child zone based on CDS/CDNSKEY'', author, 1),
      (''dnssec-dsfromkey'', ''dnssec-dsfromkey'', ''DNSSEC DS RR generation tool'', author, 1),
      (''dnssec-importkey'', ''dnssec-importkey'', ''import DNSKEY records from external systems so they can be managed'', author, 1),
      (''dnssec-keyfromlabel'', ''dnssec-keyfromlabel'', ''DNSSEC key generation tool'', author, 1),
      (''dnssec-keygen'', ''dnssec-keygen'', ''DNSSEC key generation tool'', author, 1),
      (''dnssec-ksr'', ''dnssec-ksr'', ''create signed key response (SKR) files for offline KSK setups'', author, 1),
      (''dnssec-revoke'', ''dnssec-revoke'', ''set the REVOKED bit on a DNSSEC key'', author, 1),
      (''dnssec-settime'', ''dnssec-settime'', ''set the key timing metadata for a DNSSEC key'', author, 1),
      (''dnssec-signzone'', ''dnssec-signzone'', ''DNSSEC zone signing tool'', author, 1),
      (''dnssec-verify'', ''dnssec-verify'', ''DNSSEC zone verification tool'', author, 1),
      (''filter-aaaa'', ''filter-aaaa'', ''filter AAAA in DNS responses when A is present'', author, 8),
      (''filter-a'', ''filter-a'', ''filter A in DNS responses when AAAA is present'', author, 8),
      (''host'', ''host'', ''DNS lookup utility'', author, 1),
      (''mdig'', ''mdig'', ''DNS pipelined lookup utility'', author, 1),
      (''named-checkconf'', ''named-checkconf'', ''named configuration file syntax checking tool'', author, 1),
      (''named-checkzone'', ''named-checkzone'', ''zone file validity checking or converting tool'', author, 1),
      (''named-compilezone'', ''named-compilezone'', ''zone file validity checking or converting tool'', author, 1),
      (''named-journalprint'', ''named-journalprint'', ''print zone journal in human-readable form'', author, 1),
      (''named-makejournal'', ''named-makejournal'', ''create a journal from zone files'', author, 1),
      (''named-rrchecker'', ''named-rrchecker'', ''syntax checker for individual DNS resource records'', author, 1),
      (''named.conf'', ''named.conf'', ''configuration file for **named**'', author, 5),
      (''named'', ''named'', ''Internet domain name server'', author, 8),
      (''nsec3hash'', ''nsec3hash'', ''generate NSEC3 hash'', author, 1),
      (''nslookup'', ''nslookup'', ''query Internet name servers interactively'', author, 1),
      (''nsupdate'', ''nsupdate'', ''dynamic DNS update utility'', author, 1),
      (''rndc-confgen'', ''rndc-confgen'', ''rndc key generation tool'', author, 8),
      (''rndc.conf'', ''rndc.conf'', ''rndc configuration file'', author, 5),
      (''rndc'', ''rndc'', ''name server control utility'', author, 8),
      (''tsig-keygen'', ''tsig-keygen'', ''TSIG key generation tool'', author, 8)
    ]"

text \<open>
  A Python dict is an association list in insertion order with distinct keys;
  \<open>values()\<close> is \<open>map snd\<close>.
\<close>

definition bind_optional_pages :: "(string \<times> page) list" where
  "bind_optional_pages = [
      (''dnstap-read'',
         (''dnstap-read'', ''dnstap-read'', ''print dnstap data in human-readable form'', author, 1)),
      (''named-nzd2nzf'',
         (''named-nzd2nzf'', ''named-nzd2nzf'', ''convert an NZD database to NZF text format'', author, 1))
    ]"

text \<open>What \<open>json.load\<close> returns.\<close>

datatype json =
    JNull
  | JBool bool
  | JNum int
  | JStr string
  | JArr "json list"
  | JObj "(string \<times> json) list"

text \<open>
  \<open>for target in json.load(f)\<close>: a list gives its elements, a dict its keys, a string
  its characters; anything else is not iterable.
\<close>

fun iterate :: "json \<Rightarrow> py_error + json list" where
  "iterate (JArr ts) = Inr ts"
| "iterate (JObj kvs) = Inr (map (\<lambda>kv. JStr (fst kv)) kvs)"
| "iterate (JStr s) = Inr (map (\<lambda>c. JStr [c]) s)"
| "iterate _ = Inl TypeError"

text \<open>\<open>target["name"]\<close>: only a dict can be subscripted by a string.\<close>

fun getitem_name :: "json \<Rightarrow> py_error + json" where
  "getitem_name (JObj kvs) =
     (case map_of kvs ''name'' of None \<Rightarrow> Inl KeyError | Some v \<Rightarrow> Inr v)"
| "getitem_name _ = Inl TypeError"

text \<open>
  \<open>x in bind_optional_pages\<close>: a list or a dict is unhashable; a string is looked up;
  any other value is hashable and equal to no key.
\<close>

fun contains :: "(string \<times> page) list \<Rightarrow> json \<Rightarrow> py_error + bool" where
  "contains d (JStr k) = Inr (map_of d k \<noteq> None)"
| "contains d (JArr _) = Inl TypeError"
| "contains d (JObj _) = Inl TypeError"
| "contains d _ = Inr False"

definition pop :: "(string \<times> page) list \<Rightarrow> string \<Rightarrow> py_error + (page \<times> (string \<times> page) list)" where
  "pop d k =
     (case map_of d k of
        None \<Rightarrow> Inl KeyError
      | Some v \<Rightarrow> Inr (v, AList.delete k d))"

text \<open>
  The loop over the build targets; the state is \<open>(man_pages, bind_optional_pages)\<close>.
\<close>

fun for_target ::
  "json list \<Rightarrow> page list \<times> (string \<times> page) list \<Rightarrow>
     py_error + (page list \<times> (string \<times> page) list)" where
  "for_target [] st = Inr st"
| "for_target (target # ts) (mp, opt) =
     (case getitem_name target of
        Inl e \<Rightarrow> Inl e
      | Inr n \<Rightarrow>
          (case contains opt n of
             Inl e \<Rightarrow> Inl e
           | Inr False \<Rightarrow> for_target ts (mp, opt)
           | Inr True \<Rightarrow>
               (case n of
                  JStr k \<Rightarrow>
                    (case pop opt k of
                       Inl e \<Rightarrow> Inl e
                     | Inr (page, opt') \<Rightarrow> for_target ts (mp @ [page], opt'))
                | _ \<Rightarrow> Inl TypeError)))"

text \<open>The decimal text of a number, as an f-string prints it.\<close>

fun str_nat :: "nat \<Rightarrow> string" where
  "str_nat n =
     (if n < 10 then [char_of (48 + n)]
      else str_nat (n div 10) @ [char_of (48 + n mod 10)])"

definition doctree_of :: "pure_path \<Rightarrow> page \<Rightarrow> pure_path" where
  "doctree_of bind_build_path unused =
     joinpath (joinpath bind_build_path ''man.p'') (fst unused @ ''.doctree'')"

definition manpage_of :: "pure_path \<Rightarrow> page \<Rightarrow> pure_path" where
  "manpage_of bind_build_path unused =
     (let section = snd (snd (snd (snd unused))) in
      joinpath (joinpath (joinpath bind_build_path ''man'') (''man'' @ str_nat section))
        (fst unused @ ''.'' @ str_nat section))"

definition unlink_if_exists :: "filesystem \<Rightarrow> pure_path \<Rightarrow> py_error + filesystem" where
  "unlink_if_exists fs p =
     (case exists fs p of
        Inl e \<Rightarrow> Inl e
      | Inr True \<Rightarrow> unlink fs p
      | Inr False \<Rightarrow> Inr fs)"

text \<open>The loop deleting the artifacts of the optional pages that were not built.\<close>

fun delete_artifacts ::
  "pure_path \<Rightarrow> page list \<Rightarrow> filesystem \<Rightarrow> py_error + filesystem" where
  "delete_artifacts bind_build_path [] fs = Inr fs"
| "delete_artifacts bind_build_path (unused # rest) fs =
     (case unlink_if_exists fs (doctree_of bind_build_path unused) of
        Inl e \<Rightarrow> Inl e
      | Inr fs1 \<Rightarrow>
          (case unlink_if_exists fs1 (manpage_of bind_build_path unused) of
             Inl e \<Rightarrow> Inl e
           | Inr fs2 \<Rightarrow> delete_artifacts bind_build_path rest fs2))"

text \<open>
  \<open>open(bind_build_path / "meson-info" / "intro-targets.json")\<close>, \<open>json.load\<close> and the
  start of the iteration. \<open>resolve\<close> is \<open>Path.resolve\<close> and \<open>loads\<close> the JSON decoder;
  both are parameters.
\<close>

definition intro_targets ::
  "(pure_path \<Rightarrow> pure_path) \<Rightarrow> (string \<Rightarrow> py_error + json) \<Rightarrow> filesystem \<Rightarrow> string \<Rightarrow>
     py_error + json list" where
  "intro_targets resolve loads fs bind_build_root =
     (let bind_build_path = resolve (Path bind_build_root) in
      case read_text fs (joinpath (joinpath bind_build_path ''meson-info'') ''intro-targets.json'') of
        Inl e \<Rightarrow> Inl e
      | Inr txt \<Rightarrow>
          (case loads txt of
             Inl e \<Rightarrow> Inl e
           | Inr doc \<Rightarrow> iterate doc))"

text \<open>
  The module from \<open>bind_build_root = os.getenv("BIND_BUILD_ROOT")\<close> on. The result is the
  final \<open>man_pages\<close>, the final \<open>bind_optional_pages\<close> and the file system.
\<close>

definition conf ::
  "string option \<Rightarrow> (pure_path \<Rightarrow> pure_path) \<Rightarrow> (string \<Rightarrow> py_error + json) \<Rightarrow> filesystem \<Rightarrow>
     py_error + (page list \<times> (string \<times> page) list \<times> filesystem)" where
  "conf bind_build_root resolve loads fs =
     (case bind_build_root of
        None \<Rightarrow> Inr (man_pages @ map snd bind_optional_pages, bind_optional_pages, fs)
      | Some r \<Rightarrow>
          (case intro_targets resolve loads fs r of
             Inl e \<Rightarrow> Inl e
           | Inr ts \<Rightarrow>
               (case for_target ts (man_pages, bind_optional_pages) of
                  Inl e \<Rightarrow> Inl e
                | Inr (mp, opt) \<Rightarrow>
                    (case delete_artifacts (resolve (Path r)) (map snd opt) fs of
                       Inl e \<Rightarrow> Inl e
                     | Inr fs' \<Rightarrow> Inr (mp, opt, fs')))))"

text \<open>A build target named \<open>k\<close> is in the list.\<close>

definition has_target :: "json list \<Rightarrow> string \<Rightarrow> bool" where
  "has_target ts k = list_ex (\<lambda>t. getitem_name t = Inr (JStr k)) ts"

text \<open>
  A build tree at \<open>/build\<close> in which \<open>dnstap-read\<close> is built (listed twice, as an
  executable and as a custom target) and \<open>named-nzd2nzf\<close> is not, with stale artifacts of
  the latter from an earlier configuration.
\<close>

definition example_targets :: json where
  "example_targets =
     JArr [JObj [(''name'', JStr ''named''), (''type'', JStr ''executable'')],
           JObj [(''name'', JStr ''dnstap-read''), (''type'', JStr ''executable'')],
           JObj [(''type'', JStr ''custom''), (''name'', JStr ''dnstap-read'')]]"

definition example_loads :: "string \<Rightarrow> py_error + json" where
  "example_loads txt = (if txt = ''[...]'' then Inr example_targets else Inl JSONDecodeError)"

definition example_build_fs :: filesystem where
  "example_build_fs =
     (\<lambda>p. None)
       (\<lparr> path_root = ''/'', path_names = [''build'', ''meson-info'', ''intro-targets.json''] \<rparr>
          := Some (RegularFile ''[...]''),
        \<lparr> path_root = ''/'', path_names = [''build'', ''man.p'', ''named-nzd2nzf.doctree''] \<rparr>
          := Some (RegularFile ''doctree''),
        \<lparr> path_root = ''/'', path_names = [''build'', ''man'', ''man1'', ''named-nzd2nzf.1''] \<rparr>
          := Some (RegularFile ''.TH''))"

definition example_build :: pure_path where
  "example_build = \<lparr> path_root = ''/'', path_names = [''build''] \<rparr>"

definition nzd_page :: page where
  "nzd_page = (''named-nzd2nzf'', ''named-nzd2nzf'', ''convert an NZD database to NZF text format'', author, 1)"

definition dnstap_page :: page where
  "dnstap_page = (''dnstap-read'', ''dnstap-read'', ''print dnstap data in human-readable form'', author, 1)"

section \<open>The test harness used by bin/tests/system\<close>

text \<open>
  The system tests call \<open>isctest.check.same_answer\<close>; the package \<open>isctest\<close> itself is not
  among the source files. The definitions of this section follow the specification's data
  model (section 3) and component design (section 4.3).
\<close>

subsection \<open>Responses and the answer comparison\<close>

text \<open>
  Modelled from the spec: the Response of the data model, "status code (one of a fixed
  enumeration: no-error, name-error, server-failure, ...), flag bits (authenticated-data,
  checking-disabled, ...), answer record set (ordered sequence of resource records)". The
  resource records are left abstract.
\<close>

datatype status_code = NoError | NameError | ServerFailure | OtherStatus nat

datatype flag_bit = AuthenticatedData | CheckingDisabled | RecursionDesired | OtherFlag nat

record 'rr response =
  status :: status_code
  flag_bits :: "flag_bit set"
  answer :: "'rr list"

text \<open>
  Modelled from the spec: \<open>isctest.check.same_answer\<close>, missing from the sources. Section 4.3:
  answer-sets-equal(r1, r2) "compares two responses' answer record sets for set-equality
  ignoring ordering".
\<close>

definition same_answer :: "'rr response \<Rightarrow> 'rr response \<Rightarrow> bool" where
  "same_answer r1 r2 = (set (answer r1) = set (answer r2))"

text \<open>
  Two responses to the same query carrying the same records in a different order.
\<close>

definition example_answer :: "string response" where
  "example_answer = \<lparr> status = NoError, flag_bits = {CheckingDisabled},
      answer = [''example. SOA'', ''example. RRSIG''] \<rparr>"

definition example_reference :: "string response" where
  "example_reference = \<lparr> status = NoError, flag_bits = {CheckingDisabled, RecursionDesired},
      answer = [''example. RRSIG'', ''example. SOA''] \<rparr>"

section \<open>Properties\<close>

subsection \<open>doc/ext/configblock.py\<close>

text \<open>
  C9 (as stated, refuted): the directive does not return a node for every argument. When the
  target exists and is a directory, \<open>exists\<close> returns true and \<open>read_text\<close> raises.
\<close>

theorem run_directory_counterexample:
  "miscpath (Some ''/build'') = Inr example_misc \<and>
   exists example_fs (joinpath example_misc ''sub'') = Inr True \<and>
   run example_misc example_fs [''sub''] = Inl IsADirectoryError"
  by (simp add: miscpath_def run_def exists_def read_text_def Let_def example_misc_def
        example_fs_def joinpath_def Path_def splitroot_def Directory_def)

text \<open>
  C9 (amended): for every argument, what \<open>run\<close> does is decided by what the two pathlib
  calls do on the target \<open>miscpath / argument\<close>. If \<open>exists\<close> reports that nothing is there,
  \<open>run\<close> does not raise and returns exactly one literal block whose text is the two
  characters \<open>{}\<close>. If the target exists and \<open>read_text\<close> returns its text, \<open>run\<close> returns
  exactly one literal block holding that whole text. If \<open>exists\<close> raises (an operating
  system error other than the ones it takes for "missing") or \<open>read_text\<close> raises (a
  directory, a file that may not be read, bytes that do not decode), \<open>run\<close> raises the same
  exception and returns no node.
\<close>

theorem run_by_target:
  "run misc fs [a] =
     (case fs (joinpath misc a) of
        None \<Rightarrow> Inr [literal_block ''{}'']
      | Some (StatFails e) \<Rightarrow> Inl e
      | Some (Present (Inr txt) u) \<Rightarrow> Inr [literal_block txt]
      | Some (Present (Inl e) u) \<Rightarrow> Inl e)"
  by (simp add: run_def exists_def read_text_def Let_def
           split: option.splits fs_entry.splits sum.splits)

text \<open>
  The four kinds of entries under the example \<open>doc/misc\<close>, a missing name, and a name the
  file system refuses.
\<close>

lemma run_examples:
  "run example_misc example_fs [''options''] = Inr [literal_block ''options { };'']"
  "run example_misc example_fs [''missing''] = Inr [literal_block ''{}'']"
  "run example_misc example_fs [''secret''] = Inl PermissionError"
  "run example_misc example_fs [''binary''] = Inl UnicodeDecodeError"
  "run example_misc (example_fs(joinpath example_misc long := Some NameTooLong)) [long] = Inl OSError"
  by (simp_all add: run_def exists_def read_text_def Let_def example_misc_def
        example_fs_def joinpath_def Path_def splitroot_def RegularFile_def UnreadableFile_def
        UndecodableFile_def NameTooLong_def)

subsection \<open>doc/man/conf.py\<close>

lemma has_target_Cons:
  "has_target (t # ts) k = (getitem_name t = Inr (JStr k) \<or> has_target ts k)"
  by (simp add: has_target_def)

lemma has_target_Nil: "has_target [] k = False"
  by (simp add: has_target_def)

lemma delete_as_filter: "AList.delete k d = filter (\<lambda>kv. fst kv \<noteq> k) d"
  by (induction d) (auto simp: AList.delete_eq)

lemma contains_True: "contains d n = Inr True \<Longrightarrow> \<exists>k page. n = JStr k \<and> map_of d k = Some page"
  by (cases n) (auto simp del: split_paired_Ex)

lemma contains_False: "contains d n = Inr False \<Longrightarrow> n = JStr k \<Longrightarrow> map_of d k = None"
  by (cases "map_of d k") simp_all

lemma key_in_dict: "kv \<in> set d \<Longrightarrow> map_of d (fst kv) \<noteq> None"
  by (simp add: map_of_eq_None_iff)

lemma contains_False_key:
  "contains d n = Inr False \<Longrightarrow> kv \<in> set d \<Longrightarrow> n \<noteq> JStr (fst kv)"
  using contains_False key_in_dict by blast


lemma dict_key_unique:
  "distinct (map fst d) \<Longrightarrow> (k, v) \<in> set d \<Longrightarrow> kv \<in> set d \<Longrightarrow> fst kv = k \<Longrightarrow> kv = (k, v)"
  by (cases kv) (auto dest: eq_key_imp_eq_value)

lemma dict_value_unique:
  "distinct (map snd d) \<Longrightarrow> (k, v) \<in> set d \<Longrightarrow> kv \<in> set d \<Longrightarrow> snd kv = v \<Longrightarrow> kv = (k, v)"
proof -
  assume d: "distinct (map snd d)" and m: "(k, v) \<in> set d" "kv \<in> set d" and e: "snd kv = v"
  from d have "inj_on snd (set d)" by (simp add: distinct_map)
  from inj_onD[OF this, of kv "(k, v)"] m e show ?thesis by simp
qed

lemma for_target_Cons_skip:
  "getitem_name t = Inr n \<Longrightarrow> contains opt n = Inr False \<Longrightarrow>
     for_target (t # ts) (mp, opt) = for_target ts (mp, opt)"
  by simp

lemma for_target_Cons_pop:
  "getitem_name t = Inr (JStr k) \<Longrightarrow> map_of opt k = Some page \<Longrightarrow>
     for_target (t # ts) (mp, opt) = for_target ts (mp @ [page], AList.delete k opt)"
  by (simp add: pop_def)

lemma for_target_Cons_cases:
  assumes "for_target (t # ts) (mp, opt) = Inr r"
  obtains n where "getitem_name t = Inr n" "contains opt n = Inr False"
  | k page where "getitem_name t = Inr (JStr k)" "map_of opt k = Some page"
proof -
  from assms obtain n where n: "getitem_name t = Inr n"
    by (cases "getitem_name t") auto
  from assms n obtain b where b: "contains opt n = Inr b"
    by (cases "contains opt n") auto
  show thesis
  proof (cases b)
    case True
    with b have "contains opt n = Inr True" by simp
    from contains_True[OF this] obtain k page where "n = JStr k" "map_of opt k = Some page"
      by blast
    with n that(2) show thesis by blast
  next
    case False
    with b have "contains opt n = Inr False" by simp
    with n show thesis by (rule that(1))
  qed
qed



lemma skip_filter:
  assumes "getitem_name t = Inr n" "contains opt n = Inr False"
  shows "filter (\<lambda>kv. \<not> has_target (t # ts) (fst kv)) opt
         = filter (\<lambda>kv. \<not> has_target ts (fst kv)) opt"
proof (rule filter_cong[OF refl])
  fix kv assume "kv \<in> set opt"
  from contains_False_key[OF assms(2) this]
  show "(\<not> has_target (t # ts) (fst kv)) = (\<not> has_target ts (fst kv))"
    by (simp add: has_target_Cons assms(1))
qed

lemma skip_set:
  assumes "getitem_name t = Inr n" "contains opt n = Inr False"
  shows "{kv \<in> set opt. has_target (t # ts) (fst kv)} = {kv \<in> set opt. has_target ts (fst kv)}"
proof -
  have "set (filter (\<lambda>kv. has_target (t # ts) (fst kv)) opt)
        = set (filter (\<lambda>kv. has_target ts (fst kv)) opt)"
  proof (rule arg_cong[where f = set], rule filter_cong[OF refl])
    fix kv assume "kv \<in> set opt"
    from contains_False_key[OF assms(2) this]
    show "has_target (t # ts) (fst kv) = has_target ts (fst kv)"
      by (simp add: has_target_Cons assms(1))
  qed
  then show ?thesis by simp
qed


lemma pop_has_target:
  assumes "getitem_name t = Inr (JStr k)"
  shows "has_target (t # ts) k' = (k' = k \<or> has_target ts k')"
  using assms by (auto simp: has_target_Cons)

lemma pop_filter:
  assumes "getitem_name t = Inr (JStr k)"
  shows "filter (\<lambda>kv. \<not> has_target ts (fst kv)) (AList.delete k opt)
         = filter (\<lambda>kv. \<not> has_target (t # ts) (fst kv)) opt"
proof -
  have "filter (\<lambda>kv. \<not> has_target ts (fst kv)) (AList.delete k opt)
        = filter (\<lambda>kv. fst kv \<noteq> k \<and> \<not> has_target ts (fst kv)) opt"
    by (simp only: delete_as_filter filter_filter conj_commute)
  also have "\<dots> = filter (\<lambda>kv. \<not> has_target (t # ts) (fst kv)) opt"
    by (simp only: pop_has_target[OF assms] de_Morgan_disj)
  finally show ?thesis .
qed

lemma pop_set:
  assumes "getitem_name t = Inr (JStr k)" "map_of opt k = Some page" "distinct (map fst opt)"
  shows "{kv \<in> set opt. has_target (t # ts) (fst kv)}
         = insert (k, page) {kv \<in> set (AList.delete k opt). has_target ts (fst kv)}"
proof -
  have mem: "(k, page) \<in> set opt" using assms(2) by (rule map_of_SomeD)
  show ?thesis
  proof (rule set_eqI, rule iffI)
    fix kv assume "kv \<in> {kv \<in> set opt. has_target (t # ts) (fst kv)}"
    then have a: "kv \<in> set opt" and b: "fst kv = k \<or> has_target ts (fst kv)"
      by (simp_all add: pop_has_target[OF assms(1)])
    show "kv \<in> insert (k, page) {kv \<in> set (AList.delete k opt). has_target ts (fst kv)}"
    proof (cases "fst kv = k")
      case True
      from dict_key_unique[OF assms(3) mem a True] show ?thesis by simp
    next
      case False
      with a b show ?thesis by (simp add: delete_as_filter)
    qed
  next
    fix kv assume "kv \<in> insert (k, page) {kv \<in> set (AList.delete k opt). has_target ts (fst kv)}"
    then have "kv = (k, page) \<or> (kv \<in> set opt \<and> fst kv \<noteq> k \<and> has_target ts (fst kv))"
      by (simp add: delete_as_filter)
    then show "kv \<in> {kv \<in> set opt. has_target (t # ts) (fst kv)}"
      using mem by (auto simp: pop_has_target[OF assms(1)])
  qed
qed

lemma pop_fresh:
  assumes "map_of opt k = Some page" "distinct (map snd opt)"
  shows "page \<notin> snd ` {kv \<in> set (AList.delete k opt). P kv}"
proof
  have mem: "(k, page) \<in> set opt" using assms(1) by (rule map_of_SomeD)
  assume "page \<in> snd ` {kv \<in> set (AList.delete k opt). P kv}"
  then obtain kv where kv: "kv \<in> set opt" "fst kv \<noteq> k" "snd kv = page"
    by (auto simp: delete_as_filter)
  from dict_value_unique[OF assms(2) mem kv(1) kv(3)] kv(2) show False by simp
qed


lemma delete_distinct:
  "distinct (map fst d) \<Longrightarrow> distinct (map fst (AList.delete k d))"
  "distinct (map snd d) \<Longrightarrow> distinct (map snd (AList.delete k d))"
  by (simp_all only: delete_as_filter distinct_map_filter)

lemma for_target_result:
  "for_target ts (mp, opt) = Inr (mp', opt') \<Longrightarrow> distinct (map fst opt) \<Longrightarrow>
   distinct (map snd opt) \<Longrightarrow>
     opt' = filter (\<lambda>kv. \<not> has_target ts (fst kv)) opt \<and>
     (\<exists>app. mp' = mp @ app \<and> distinct app \<and>
        set app = snd ` {kv \<in> set opt. has_target ts (fst kv)})"
proof (induction ts arbitrary: mp opt)
  case Nil
  then show ?case by (simp add: has_target_Nil)
next
  case (Cons t ts)
  from Cons.prems(1) show ?case
  proof (cases rule: for_target_Cons_cases)
    case (1 n)
    have rec: "for_target ts (mp, opt) = Inr (mp', opt')"
      using Cons.prems(1) unfolding for_target_Cons_skip[OF 1] .
    from Cons.IH[OF rec Cons.prems(2,3)] show ?thesis
      unfolding skip_filter[OF 1] skip_set[OF 1] .
  next
    case (2 k page)
    let ?opt = "AList.delete k opt"
    have rec: "for_target ts (mp @ [page], ?opt) = Inr (mp', opt')"
      using Cons.prems(1) unfolding for_target_Cons_pop[OF 2] .
    from Cons.IH[OF rec delete_distinct(1)[OF Cons.prems(2)] delete_distinct(2)[OF Cons.prems(3)]]
    obtain app where
      o: "opt' = filter (\<lambda>kv. \<not> has_target ts (fst kv)) ?opt" and
      m: "mp' = (mp @ [page]) @ app" and da: "distinct app" and
      sa: "set app = snd ` {kv \<in> set ?opt. has_target ts (fst kv)}"
      by blast
    have notin: "page \<notin> set app"
      unfolding sa by (rule pop_fresh[OF 2(2) Cons.prems(3)])
    have a: "opt' = filter (\<lambda>kv. \<not> has_target (t # ts) (fst kv)) opt"
      unfolding o by (rule pop_filter[OF 2(1)])
    have b: "set (page # app) = snd ` {kv \<in> set opt. has_target (t # ts) (fst kv)}"
      unfolding pop_set[OF 2 Cons.prems(2)] by (simp add: sa)
    have c: "mp' = mp @ (page # app)" using m by simp
    have d: "distinct (page # app)" using da notin by simp
    from a b c d show ?thesis by blast
  qed
qed

lemma optional_keys_distinct: "distinct (map fst bind_optional_pages)"
  by (simp add: bind_optional_pages_def)

lemma optional_values_distinct: "distinct (map snd bind_optional_pages)"
  by (simp add: bind_optional_pages_def)

lemma optional_not_initial: "map_of bind_optional_pages k = Some page \<Longrightarrow> page \<notin> set man_pages"
  by (auto simp: bind_optional_pages_def man_pages_def split: if_splits)

lemma distinct_count_le_1: "distinct xs \<Longrightarrow> count_list xs x \<le> 1"
  by (induction xs) auto

lemma unlink_if_exists_gone:
  "unlink_if_exists fs p = Inr fs1 \<Longrightarrow> fs1 p = None \<and> (\<forall>q. fs q = None \<longrightarrow> fs1 q = None)"
  by (auto simp: unlink_if_exists_def unlink_def exists_def
        split: if_splits option.splits fs_entry.splits sum.splits bool.splits)

lemma delete_artifacts_gone:
  "delete_artifacts bp ps fs = Inr fs' \<Longrightarrow>
     (\<forall>q. fs q = None \<longrightarrow> fs' q = None) \<and>
     (\<forall>u \<in> set ps. fs' (doctree_of bp u) = None \<and> fs' (manpage_of bp u) = None)"
proof (induction ps arbitrary: fs)
  case Nil
  then show ?case by simp
next
  case (Cons u ps)
  from Cons.prems obtain fs1 fs2 where
    1: "unlink_if_exists fs (doctree_of bp u) = Inr fs1" and
    2: "unlink_if_exists fs1 (manpage_of bp u) = Inr fs2" and
    3: "delete_artifacts bp ps fs2 = Inr fs'"
    by (auto split: sum.splits)
  from unlink_if_exists_gone[OF 1] unlink_if_exists_gone[OF 2] Cons.IH[OF 3]
  show ?case by simp
qed

lemma value_selected:
  assumes "distinct (map snd d)" "(k, v) \<in> set d"
  shows "(v \<in> snd ` {kv \<in> set d. P (fst kv)}) = P k"
proof
  assume "v \<in> snd ` {kv \<in> set d. P (fst kv)}"
  then obtain kv where kv: "kv \<in> set d" "P (fst kv)" "snd kv = v" by auto
  from dict_value_unique[OF assms(1,2) kv(1) kv(3)] kv(2) show "P k" by simp
next
  assume "P k"
  with assms(2) have "(k, v) \<in> {kv \<in> set d. P (fst kv)}" by simp
  then show "v \<in> snd ` {kv \<in> set d. P (fst kv)}" by force
qed

lemma conf_unset:
  "conf None resolve loads fs = Inr (man_pages @ map snd bind_optional_pages, bind_optional_pages, fs)"
  by (simp add: conf_def)

lemma conf_set_cases:
  assumes "conf (Some r) resolve loads fs = Inr (mp, opt, fs')"
  obtains ts where "intro_targets resolve loads fs r = Inr ts"
    "for_target ts (man_pages, bind_optional_pages) = Inr (mp, opt)"
    "delete_artifacts (resolve (Path r)) (map snd opt) fs = Inr fs'"
  using assms by (auto simp: conf_def split: sum.splits)

text \<open>The module evaluated on the example build tree.\<close>

lemma example_Path: "Path ''/build'' = example_build"
  by code_simp

lemma example_doctree: "doctree_of example_build nzd_page = \<lparr> path_root = ''/'', path_names = [''build'', ''man.p'', ''named-nzd2nzf.doctree''] \<rparr>"
  by code_simp

lemma example_manpage: "manpage_of example_build nzd_page = \<lparr> path_root = ''/'', path_names = [''build'', ''man'', ''man1'', ''named-nzd2nzf.1''] \<rparr>"
  by code_simp

lemma example_intro_path: "joinpath (joinpath example_build ''meson-info'') ''intro-targets.json'' = \<lparr> path_root = ''/'', path_names = [''build'', ''meson-info'', ''intro-targets.json''] \<rparr>"
  by code_simp

lemma example_intro_targets:
  "intro_targets (\<lambda>p. p) example_loads example_build_fs ''/build'' =
     Inr [JObj [(''name'', JStr ''named''), (''type'', JStr ''executable'')],
          JObj [(''name'', JStr ''dnstap-read''), (''type'', JStr ''executable'')],
          JObj [(''type'', JStr ''custom''), (''name'', JStr ''dnstap-read'')]]"
  by (simp add: intro_targets_def example_Path example_intro_path read_text_def
        example_build_fs_def RegularFile_def example_loads_def example_targets_def)

lemma example_for_target:
  "for_target [JObj [(''name'', JStr ''named''), (''type'', JStr ''executable'')],
          JObj [(''name'', JStr ''dnstap-read''), (''type'', JStr ''executable'')],
          JObj [(''type'', JStr ''custom''), (''name'', JStr ''dnstap-read'')]] (mp, bind_optional_pages)
   = Inr (mp @ [dnstap_page], [(''named-nzd2nzf'', nzd_page)])"
  by (simp add: bind_optional_pages_def pop_def dnstap_page_def nzd_page_def)

lemma example_cleanup:
  "delete_artifacts example_build [nzd_page] example_build_fs =
    Inr (example_build_fs(doctree_of example_build nzd_page := None, manpage_of example_build nzd_page := None))"
  by (simp add: example_doctree example_manpage unlink_if_exists_def exists_def unlink_def
        example_build_fs_def RegularFile_def)

lemma example_conf:
  "conf (Some ''/build'') (\<lambda>p. p) example_loads example_build_fs =
     Inr (man_pages @ [dnstap_page], [(''named-nzd2nzf'', nzd_page)],
          example_build_fs(doctree_of example_build nzd_page := None, manpage_of example_build nzd_page := None))"
  by (simp only: conf_def option.case example_intro_targets sum.case example_for_target
        prod.case list.map snd_conv example_Path example_cleanup)

lemma nzd_lookup: "map_of bind_optional_pages ''named-nzd2nzf'' = Some nzd_page"
  by (simp add: bind_optional_pages_def nzd_page_def)

lemma nzd_not_target:
  "\<not> has_target [JObj [(''name'', JStr ''named''), (''type'', JStr ''executable'')],
          JObj [(''name'', JStr ''dnstap-read''), (''type'', JStr ''executable'')],
          JObj [(''type'', JStr ''custom''), (''name'', JStr ''dnstap-read'')]] ''named-nzd2nzf''"
  by (simp add: has_target_def)

text \<open>
  C10: whenever the module loads without raising, every optional page (\<open>dnstap-read\<close>,
  \<open>named-nzd2nzf\<close>) occurs at most once in the final \<open>man_pages\<close>. With
  \<open>BIND_BUILD_ROOT\<close> unset the page is included. With it set, the page is included exactly
  when a build target of the same name is in the intro-targets list; the page is then either
  appended to \<open>man_pages\<close> or still among the values of \<open>bind_optional_pages\<close> that the
  cleanup loop runs over, never both; and for a page left to the cleanup neither its doctree
  nor its man page file exists afterwards.
\<close>

theorem optional_pages_assembled:
  assumes run: "conf bind_build_root resolve loads fs = Inr (mp, opt, fs')"
      and page: "map_of bind_optional_pages k = Some page"
  shows "count_list mp page \<le> 1 \<and>
         (bind_build_root = None \<longrightarrow> page \<in> set mp) \<and>
         (\<forall>r ts. bind_build_root = Some r \<and> intro_targets resolve loads fs r = Inr ts \<longrightarrow>
            (page \<in> set mp) = has_target ts k \<and>
            (page \<in> set (map snd opt)) = (page \<notin> set mp) \<and>
            (page \<notin> set mp \<longrightarrow>
               fs' (doctree_of (resolve (Path r)) page) = None \<and>
               fs' (manpage_of (resolve (Path r)) page) = None))"
proof (cases bind_build_root)
  case None
  with run have mp: "mp = man_pages @ map snd bind_optional_pages"
    by (simp add: conf_unset)
  have mem: "(k, page) \<in> set bind_optional_pages" using page by (rule map_of_SomeD)
  then have in_values: "page \<in> set (map snd bind_optional_pages)" by force
  have "count_list mp page = count_list (map snd bind_optional_pages) page"
    unfolding mp using optional_not_initial[OF page] by simp
  also have "\<dots> \<le> 1" by (rule distinct_count_le_1[OF optional_values_distinct])
  finally have "count_list mp page \<le> 1" .
  moreover have "page \<in> set mp" unfolding mp using in_values by simp
  ultimately show ?thesis using None by simp
next
  case (Some r)
  from run[unfolded Some] obtain ts where
    ts: "intro_targets resolve loads fs r = Inr ts" and
    loop: "for_target ts (man_pages, bind_optional_pages) = Inr (mp, opt)" and
    cleanup: "delete_artifacts (resolve (Path r)) (map snd opt) fs = Inr fs'"
    by (rule conf_set_cases)
  from for_target_result[OF loop optional_keys_distinct optional_values_distinct]
  obtain app where
    opt: "opt = filter (\<lambda>kv. \<not> has_target ts (fst kv)) bind_optional_pages" and
    mp: "mp = man_pages @ app" and da: "distinct app" and
    sa: "set app = snd ` {kv \<in> set bind_optional_pages. has_target ts (fst kv)}"
    by blast
  have mem: "(k, page) \<in> set bind_optional_pages" using page by (rule map_of_SomeD)
  have fresh: "page \<notin> set man_pages" by (rule optional_not_initial[OF page])
  have "count_list mp page = count_list app page" unfolding mp using fresh by simp
  also have "\<dots> \<le> 1" by (rule distinct_count_le_1[OF da])
  finally have once: "count_list mp page \<le> 1" .
  have appended: "(page \<in> set mp) = has_target ts k"
  proof -
    have "(page \<in> set mp) = (page \<in> set app)" unfolding mp using fresh by simp
    also have "\<dots> = has_target ts k"
      unfolding sa by (rule value_selected[OF optional_values_distinct mem])
    finally show ?thesis .
  qed
  have left: "(page \<in> set (map snd opt)) = (\<not> has_target ts k)"
  proof -
    have "set (map snd opt) = snd ` {kv \<in> set bind_optional_pages. \<not> has_target ts (fst kv)}"
      unfolding opt by simp
    then show ?thesis
      using value_selected[OF optional_values_distinct mem, of "\<lambda>k. \<not> has_target ts k"] by simp
  qed
  have gone: "page \<notin> set mp \<Longrightarrow>
      fs' (doctree_of (resolve (Path r)) page) = None \<and>
      fs' (manpage_of (resolve (Path r)) page) = None"
  proof -
    assume "page \<notin> set mp"
    with appended left have "page \<in> set (map snd opt)" by simp
    with delete_artifacts_gone[OF cleanup] show ?thesis by blast
  qed
  have "\<And>ts'. intro_targets resolve loads fs r = Inr ts' \<Longrightarrow> ts' = ts"
    using ts by simp
  with once appended left gone Some show ?thesis by auto
qed

text \<open>
  The theorem at the example build tree, for \<open>named-nzd2nzf\<close> (not built there: left out
  of \<open>man_pages\<close>, its stale artifacts deleted), and with \<open>BIND_BUILD_ROOT\<close> unset
  (included).
\<close>

theorem optional_pages_assembled_witness:
  "conf (Some ''/build'') (\<lambda>p. p) example_loads example_build_fs =
     Inr (man_pages @ [dnstap_page], [(''named-nzd2nzf'', nzd_page)],
          example_build_fs(doctree_of example_build nzd_page := None,
                           manpage_of example_build nzd_page := None)) \<and>
   map_of bind_optional_pages ''named-nzd2nzf'' = Some nzd_page \<and>
   count_list (man_pages @ [dnstap_page]) nzd_page \<le> 1 \<and>
   nzd_page \<notin> set (man_pages @ [dnstap_page]) \<and>
   nzd_page \<in> set (map snd [(''named-nzd2nzf'', nzd_page)]) \<and>
   (example_build_fs(doctree_of example_build nzd_page := None,
                     manpage_of example_build nzd_page := None))
      (doctree_of example_build nzd_page) = None \<and>
   (example_build_fs(doctree_of example_build nzd_page := None,
                     manpage_of example_build nzd_page := None))
      (manpage_of example_build nzd_page) = None \<and>
   conf None (\<lambda>p. p) example_loads example_build_fs =
     Inr (man_pages @ map snd bind_optional_pages, bind_optional_pages, example_build_fs) \<and>
   nzd_page \<in> set (man_pages @ map snd bind_optional_pages)"
proof -
  note unset_case = optional_pages_assembled[OF conf_unset nzd_lookup]
  note set_case = optional_pages_assembled[OF example_conf nzd_lookup]
  note inst = set_case[THEN conjunct2, THEN conjunct2, THEN spec, THEN spec, THEN mp,
      OF conjI[OF refl example_intro_targets], unfolded example_Path]
  from set_case have once: "count_list (man_pages @ [dnstap_page]) nzd_page \<le> 1"
    by (rule conjunct1)
  from inst nzd_not_target
  have absent: "nzd_page \<notin> set (man_pages @ [dnstap_page])"
    and left: "nzd_page \<in> set (map snd [(''named-nzd2nzf'', nzd_page)])"
    and gone1: "(example_build_fs(doctree_of example_build nzd_page := None,
                     manpage_of example_build nzd_page := None))
      (doctree_of example_build nzd_page) = None"
    and gone2: "(example_build_fs(doctree_of example_build nzd_page := None,
                     manpage_of example_build nzd_page := None))
      (manpage_of example_build nzd_page) = None"
    by blast+
  from unset_case have included: "nzd_page \<in> set (man_pages @ map snd bind_optional_pages)"
    by blast
  from example_conf nzd_lookup once absent left gone1 gone2 conf_unset included
  show ?thesis by blast
qed

subsection \<open>The test harness\<close>

text \<open>
  C6: \<open>same_answer\<close> is reflexive and symmetric, and replacing the answer sequence of the
  first response by any permutation of it does not change the result.
\<close>

theorem same_answer_refl_sym_perm:
  "same_answer r r \<and>
   same_answer r1 r2 = same_answer r2 r1 \<and>
   (mset xs = mset (answer r1) \<longrightarrow> same_answer (r1\<lparr>answer := xs\<rparr>) r2 = same_answer r1 r2)"
  by (auto simp: same_answer_def dest: mset_eq_setD)

text \<open>The theorem at the two example responses, the first with its answers swapped.\<close>

theorem same_answer_refl_sym_perm_witness:
  "mset [''example. RRSIG'', ''example. SOA''] = mset (answer example_answer) \<and>
   same_answer (example_answer\<lparr>answer := [''example. RRSIG'', ''example. SOA'']\<rparr>) example_reference
     = same_answer example_answer example_reference \<and>
   same_answer example_answer example_reference"
proof -
  have perm: "mset [''example. RRSIG'', ''example. SOA''] = mset (answer example_answer)"
    by (simp add: example_answer_def)
  have eq: "same_answer example_answer example_reference"
    by (simp add: same_answer_def example_answer_def example_reference_def insert_commute)
  from same_answer_refl_sym_perm[of example_answer example_answer example_reference
        "[''example. RRSIG'', ''example. SOA'']"] perm eq
  show ?thesis by blast
qed

end
